theory Spec2Isabelle
  imports Complex_Main "HOL-Library.Multiset"
begin

section \<open>Exceptions and backend replies\<close>

text \<open>
  Python exceptions are values. \<open>HTTPError\<close> stands for any exception raised by the
  HTTP client (transport failure), \<open>JSONDecodeError\<close> for a body that \<open>.json()\<close> cannot
  decode into the expected shape. Python floats are idealised as real numbers.
\<close>

datatype error = HTTPError | JSONDecodeError | KeyError | TypeError

text \<open>
  One HTTP exchange: the client raises, or a response comes back with its status code,
  its raw text and, when the text decodes, its JSON content.
\<close>

datatype 'a reply = Raised | Reply (status_code: int) (body_text: string) (body_json: "'a option")

definition is_success :: "int \<Rightarrow> bool" where
  "is_success s \<longleftrightarrow> 200 \<le> s \<and> s < 300"

text \<open>\<open>resp.json()\<close>: the decoded content, or the decoder's exception.\<close>

definition json_of :: "'a option \<Rightarrow> error + 'a" where
  "json_of js = (case js of None \<Rightarrow> Inl JSONDecodeError | Some v \<Rightarrow> Inr v)"

definition then_do :: "error + 'a \<Rightarrow> ('a \<Rightarrow> error + 'b) \<Rightarrow> error + 'b" where
  "then_do m f = (case m of Inl e \<Rightarrow> Inl e | Inr x \<Rightarrow> f x)"

section \<open>Records exchanged with the backends (models.py)\<close>

text \<open>
  A JSON object is modelled by the fields the code reads. An optional field is \<open>None\<close>
  when the key is missing or null.
\<close>

record location =
  loc_city :: "string option"
  loc_thana :: "string option"
  loc_po :: "string option"
  loc_zoneId :: "int option"

record hospital =
  h_id :: int
  h_name :: "string option"
  h_icus :: "int option"
  h_latitude :: "real option"
  h_longitude :: "real option"
  h_locationResponse :: "location option"

record test =
  t_id :: int
  t_hospitalResponse :: "hospital option"

record feedback =
  f_id :: int
  f_rating :: "int option"

text \<open>A hospital after the rating pass: the keys \<open>ratings\<close> and \<open>averageRating\<close> are set.\<close>

record ranked =
  hospital_of :: hospital
  ratings :: "int list"
  averageRating :: real

definition TEST_TYPE :: "string list" where
  "TEST_TYPE = [''BLOOD'', ''HEART'', ''BRAIN'', ''LUNG'', ''EYE'', ''BONE'', ''SKIN'',
                ''GENERAL'', ''LIVER'', ''KIDNEY'']"

definition COST_RANGE :: "string list" where
  "COST_RANGE = [''VERY_LOW'', ''LOW'', ''MODERATE'', ''HIGH'', ''VERY_HIGH'']"

definition HOSPITAL_TYPE :: "string list" where
  "HOSPITAL_TYPE = [''PUBLIC'', ''PRIVATE'', ''GENERAL'', ''SPECIALIZED'', ''CHILDREN'',
                    ''MATERNITY'', ''RESEARCH'', ''REHABILITATION'']"

section \<open>Python helpers\<close>

text \<open>Truthiness of an optional string, an optional list and an optional integer.\<close>

definition truthy :: "'a list option \<Rightarrow> bool" where
  "truthy v = (case v of None \<Rightarrow> False | Some s \<Rightarrow> s \<noteq> [])"

definition truthy_int :: "int option \<Rightarrow> bool" where
  "truthy_int v = (case v of None \<Rightarrow> False | Some n \<Rightarrow> n \<noteq> 0)"

text \<open>\<open>str.lower()\<close> on ASCII letters.\<close>

definition lower_char :: "char \<Rightarrow> char" where
  "lower_char c =
     (case map_of (zip ''ABCDEFGHIJKLMNOPQRSTUVWXYZ'' ''abcdefghijklmnopqrstuvwxyz'') c of
        None \<Rightarrow> c
      | Some l \<Rightarrow> l)"

definition lower :: "string \<Rightarrow> string" where
  "lower s = map lower_char s"

text \<open>\<open>xs[:n]\<close> with an optional, possibly negative bound.\<close>

definition slice_to :: "int option \<Rightarrow> 'a list \<Rightarrow> 'a list" where
  "slice_to n xs = (case n of None \<Rightarrow> xs
     | Some k \<Rightarrow> if 0 \<le> k then take (nat k) xs else take (length xs - nat (- k)) xs)"

text \<open>
  A dict as an association list in insertion order: assigning an existing key keeps its
  position and replaces its value, a new key goes to the end.
\<close>

fun dict_set :: "'k \<Rightarrow> 'v \<Rightarrow> ('k \<times> 'v) list \<Rightarrow> ('k \<times> 'v) list" where
  "dict_set k v [] = [(k, v)]"
| "dict_set k v (p # ps) = (if fst p = k then (k, v) # ps else p # dict_set k v ps)"

text \<open>\<open>{h['id']: h for h in flat}\<close>\<close>

definition by_id :: "hospital list \<Rightarrow> (int \<times> hospital) list" where
  "by_id flat = fold (\<lambda>h d. dict_set (h_id h) h d) flat []"

text \<open>\<open>sorted(xs, key=f, reverse=True)\<close>: reverse, stable ascending sort, reverse.\<close>

definition sorted_reverse :: "('a \<Rightarrow> real) \<Rightarrow> 'a list \<Rightarrow> 'a list" where
  "sorted_reverse f xs = rev (sort_key f (rev xs))"

section \<open>Fuzzy matching (tools.py)\<close>

text \<open>
  The scorer \<open>fuzz.ratio\<close> of the rapidfuzz library is a parameter \<open>ratio\<close> of every
  function that calls it. \<open>process.extractOne\<close> returns the first choice of highest
  score, or \<open>None\<close> when there is no choice.
\<close>

type_synonym scorer = "string \<Rightarrow> string \<Rightarrow> real"

fun extractOne :: "scorer \<Rightarrow> string \<Rightarrow> string list \<Rightarrow> (string \<times> real) option" where
  "extractOne ratio q [] = None"
| "extractOne ratio q (c # cs) =
     (case extractOne ratio q cs of
        None \<Rightarrow> Some (c, ratio q c)
      | Some (m, s) \<Rightarrow> if ratio q c < s then Some (m, s) else Some (c, ratio q c))"

text \<open>Unpacking the \<open>None\<close> that \<open>extractOne\<close> returns on no choices raises TypeError.\<close>

definition fuzzy_enum_match :: "scorer \<Rightarrow> string \<Rightarrow> string list \<Rightarrow> error + string option" where
  "fuzzy_enum_match ratio v choices =
     (case extractOne ratio v choices of
        None \<Rightarrow> Inl TypeError
      | Some (m, score) \<Rightarrow> if 80 \<le> score then Inr (Some m) else Inr None)"

text \<open>The loop \<open>for t in tokens: m = fuzzy_enum_match(t, valid); if m: matched.append(m)\<close>.\<close>

fun match_tokens :: "scorer \<Rightarrow> string list \<Rightarrow> string list \<Rightarrow> error + string list" where
  "match_tokens ratio valid [] = Inr []"
| "match_tokens ratio valid (t # ts) =
     then_do (fuzzy_enum_match ratio t valid) (\<lambda>m.
     then_do (match_tokens ratio valid ts) (\<lambda>ms.
       Inr (case m of None \<Rightarrow> ms | Some v \<Rightarrow> if v \<noteq> [] then v # ms else ms)))"

text \<open>\<open>if tokens: tokens = matched\<close>: only a non-empty list is normalised.\<close>

definition normalized :: "scorer \<Rightarrow> string list \<Rightarrow> string list option \<Rightarrow> error + string list option" where
  "normalized ratio valid tokens =
     (if truthy tokens then then_do (match_tokens ratio valid (the tokens)) (\<lambda>ms. Inr (Some ms))
      else Inr tokens)"

section \<open>Hospital search (tools.py, hospital-search tool)\<close>

record search_args =
  test_types :: "string list option"
  cost_ranges :: "string list option"
  hospital_types :: "string list option"
  icu_min :: "int option"
  city :: "string option"
  thana :: "string option"
  po :: "string option"
  zone_id :: "int option"
  latitude :: "real option"
  longitude :: "real option"
  radius_km :: "real option"
  hospital_name :: "string option"
  top_n :: "int option"

text \<open>The defaults of the signature: every filter \<open>None\<close>, \<open>top_n = 5\<close>.\<close>

definition default_args :: search_args where
  "default_args = \<lparr>test_types = None, cost_ranges = None, hospital_types = None,
     icu_min = None, city = None, thana = None, po = None, zone_id = None,
     latitude = None, longitude = None, radius_km = None, hospital_name = None,
     top_n = Some 5\<rparr>"

text \<open>The endpoints of the hospital, test and feedback services that the search reads.\<close>

record backend =
  tests_by_type :: "string \<Rightarrow> test list reply"
  hospitals_by_cost_range :: "string \<Rightarrow> hospital list reply"
  hospitals_by_type :: "string \<Rightarrow> hospital list reply"
  all_hospitals :: "hospital list reply"
  feedback_by_hospital :: "int \<Rightarrow> feedback list reply"
  tests_by_hospital :: "int \<Rightarrow> test list reply"

text \<open>
  One category loop: a GET per value; the JSON of each response with a 2xx status is
  collected, every other response is skipped, an exception propagates.
\<close>

fun fetch_each :: "(string \<Rightarrow> 'a reply) \<Rightarrow> string list \<Rightarrow> error + 'a list" where
  "fetch_each get [] = Inr []"
| "fetch_each get (v # vs) =
     (case get v of
        Raised \<Rightarrow> Inl HTTPError
      | Reply st txt js \<Rightarrow>
          if is_success st
          then then_do (json_of js) (\<lambda>b. then_do (fetch_each get vs) (\<lambda>bs. Inr (b # bs)))
          else fetch_each get vs)"

text \<open>
  \<open>if fetched: flat = ...; by_id = {h['id']: h for h in flat};
  hospital_sets.append(list(by_id.values()))\<close>: what the block appends.
\<close>

definition union_by_id :: "hospital list list \<Rightarrow> hospital list list" where
  "union_by_id fetched = (if fetched \<noteq> [] then [map snd (by_id (concat fetched))] else [])"

definition category :: "(string \<Rightarrow> 'a reply) \<Rightarrow> ('a \<Rightarrow> hospital list) \<Rightarrow> string list option
    \<Rightarrow> error + hospital list list" where
  "category get hospitals_in values =
     (if truthy values
      then then_do (fetch_each get (the values)) (\<lambda>bodies. Inr (union_by_id (map hospitals_in bodies)))
      else Inr [])"

text \<open>\<open>[test['hospitalResponse'] for test in tests if 'hospitalResponse' in test]\<close>\<close>

definition hospitals_of_tests :: "test list \<Rightarrow> hospital list" where
  "hospitals_of_tests tests = List.map_filter t_hospitalResponse tests"

text \<open>Step 7: with no set collected, the all-hospitals endpoint is read.\<close>

definition fetch_all :: "backend \<Rightarrow> error + hospital list list" where
  "fetch_all be =
     (case all_hospitals be of
        Raised \<Rightarrow> Inl HTTPError
      | Reply st txt js \<Rightarrow> if is_success st then then_do (json_of js) (\<lambda>b. Inr [b]) else Inr [])"

text \<open>Steps 1 to 7: the list \<open>hospital_sets\<close> handed to \<open>intersect_hospitals\<close>.\<close>

definition hospital_sets :: "scorer \<Rightarrow> backend \<Rightarrow> search_args \<Rightarrow> error + hospital list list" where
  "hospital_sets ratio be a =
     then_do (normalized ratio TEST_TYPE (test_types a)) (\<lambda>tt.
     then_do (normalized ratio COST_RANGE (cost_ranges a)) (\<lambda>cr.
     then_do (normalized ratio HOSPITAL_TYPE (hospital_types a)) (\<lambda>ht.
     then_do (category (tests_by_type be) hospitals_of_tests tt) (\<lambda>s1.
     then_do (category (hospitals_by_cost_range be) (\<lambda>hs. hs) cr) (\<lambda>s2.
     then_do (category (hospitals_by_type be) (\<lambda>hs. hs) ht) (\<lambda>s3.
       if s1 @ s2 @ s3 = [] then fetch_all be else Inr (s1 @ s2 @ s3)))))))"

text \<open>
  \<open>intersect_hospitals\<close>. A Python set iterates in an order the language leaves open, so
  the order in which \<open>set.intersection(*sets)\<close> yields the common identifiers is the
  parameter \<open>iter\<close>: it receives the identifier lists the sets were built from.
  \<open>set_order iter\<close> states what the language does guarantee: every common identifier
  once.
\<close>

type_synonym set_iter = "int list list \<Rightarrow> int list"

definition common_ids :: "int list list \<Rightarrow> int set" where
  "common_ids sets = {i. \<forall>s \<in> set sets. i \<in> set s}"


fun lookup_all :: "(int \<times> 'v) list \<Rightarrow> int list \<Rightarrow> error + 'v list" where
  "lookup_all d [] = Inr []"
| "lookup_all d (i # is) =
     (case map_of d i of
        None \<Rightarrow> Inl KeyError
      | Some v \<Rightarrow> then_do (lookup_all d is) (\<lambda>vs. Inr (v # vs)))"

definition intersect_hospitals :: "set_iter \<Rightarrow> hospital list list \<Rightarrow> error + hospital list" where
  "intersect_hospitals iter ls =
     (if ls = [] then Inr []
      else let sets = map (map h_id) (filter (\<lambda>l. l \<noteq> []) ls) in
        if sets = [] then Inr []
        else lookup_all (by_id (concat ls)) (iter sets))"

subsection \<open>The filter pass\<close>

definition radians :: "real \<Rightarrow> real" where
  "radians x = x * pi / 180"

text \<open>\<open>math.atan2\<close> on the reals.\<close>

definition atan2 :: "real \<Rightarrow> real \<Rightarrow> real" where
  "atan2 y x =
     (if 0 < x then arctan (y / x)
      else if x < 0 then (if 0 \<le> y then arctan (y / x) + pi else arctan (y / x) - pi)
      else if 0 < y then pi / 2 else if y < 0 then - (pi / 2) else 0)"

definition haversine_a :: "real \<Rightarrow> real \<Rightarrow> real \<Rightarrow> real \<Rightarrow> real" where
  "haversine_a lat lon lat2 lon2 =
     (let dlat = radians (lat - lat2); dlon = radians (lon - lon2)
      in (sin (dlat / 2))\<^sup>2 + cos (radians lat2) * cos (radians lat) * (sin (dlon / 2))\<^sup>2)"

definition haversine_dist :: "real \<Rightarrow> real \<Rightarrow> real \<Rightarrow> real \<Rightarrow> real" where
  "haversine_dist lat lon lat2 lon2 =
     (let a = haversine_a lat lon lat2 lon2;
          c = 2 * atan2 (sqrt a) (sqrt (1 - a))
      in 6371 * c)"

text \<open>
  \<open>if q and v: score = fuzz.ratio(q.lower(), v.lower()); if score < 80: return False\<close>:
  whether the block returns \<open>False\<close>.
\<close>

definition text_rejects :: "scorer \<Rightarrow> string option \<Rightarrow> string option \<Rightarrow> bool" where
  "text_rejects ratio q v =
     (truthy q \<and> truthy v \<and> ratio (lower (the q)) (lower (the v)) < 80)"

definition empty_location :: location where
  "empty_location = \<lparr>loc_city = None, loc_thana = None, loc_po = None, loc_zoneId = None\<rparr>"

text \<open>\<open>h.get('locationResponse') or {}\<close>\<close>

definition location_of :: "hospital \<Rightarrow> location" where
  "location_of h = (case h_locationResponse h of None \<Rightarrow> empty_location | Some l \<Rightarrow> l)"

definition hospital_filter :: "scorer \<Rightarrow> search_args \<Rightarrow> hospital \<Rightarrow> bool" where
  "hospital_filter ratio a h =
     (if icu_min a \<noteq> None \<and> (h_icus h = None \<or> the (h_icus h) < the (icu_min a)) then False
      else let loc = location_of h in
        if text_rejects ratio (city a) (loc_city loc) then False
        else if text_rejects ratio (thana a) (loc_thana loc) then False
        else if text_rejects ratio (po a) (loc_po loc) then False
        else if truthy_int (zone_id a) \<and> loc_zoneId loc \<noteq> zone_id a then False
        else if text_rejects ratio (hospital_name a) (h_name h) then False
        else if latitude a \<noteq> None \<and> longitude a \<noteq> None \<and> radius_km a \<noteq> None then
          (if h_latitude h = None \<or> h_longitude h = None then False
           else if the (radius_km a) <
                   haversine_dist (the (latitude a)) (the (longitude a))
                     (the (h_latitude h)) (the (h_longitude h))
                then False
           else True)
        else True)"

subsection \<open>The rating pass, the sort and the cut\<close>

definition unrated :: "hospital \<Rightarrow> ranked" where
  "unrated h = \<lparr>hospital_of = h, ratings = [], averageRating = 0\<rparr>"

definition mean :: "int list \<Rightarrow> real" where
  "mean rs = (if rs \<noteq> [] then real_of_int (sum_list rs) / real (length rs) else 0)"

text \<open>
  The body of \<open>for hospital in filtered\<close>: the feedback fetch sits in a \<open>try\<close> whose
  handler stores the empty rating list, so nothing propagates.
\<close>

definition rate :: "backend \<Rightarrow> hospital \<Rightarrow> ranked" where
  "rate be h =
     (if h_id h \<noteq> 0 then
        (case feedback_by_hospital be (h_id h) of
           Raised \<Rightarrow> unrated h
         | Reply st txt js \<Rightarrow>
             if is_success st then
               (case js of
                  None \<Rightarrow> unrated h
                | Some feedbacks \<Rightarrow>
                    let rs = List.map_filter f_rating feedbacks
                    in \<lparr>hospital_of = h, ratings = rs, averageRating = mean rs\<rparr>)
             else unrated h)
      else unrated h)"

text \<open>The candidate pool after step 8, and the tool's result before serialisation.\<close>

definition candidate_pool :: "set_iter \<Rightarrow> scorer \<Rightarrow> backend \<Rightarrow> search_args \<Rightarrow> error + hospital list" where
  "candidate_pool iter ratio be a =
     then_do (hospital_sets ratio be a) (\<lambda>sets. intersect_hospitals iter sets)"

definition hospital_search_tool :: "set_iter \<Rightarrow> scorer \<Rightarrow> backend \<Rightarrow> search_args \<Rightarrow> error + ranked list" where
  "hospital_search_tool iter ratio be a =
     then_do (candidate_pool iter ratio be a) (\<lambda>hospitals.
       let filtered = filter (hospital_filter ratio a) hospitals;
           rated = map (rate be) filtered
       in Inr (slice_to (top_n a) (sorted_reverse averageRating rated)))"

section \<open>Lookup tools (tools.py)\<close>

text \<open>
  What a tool returns: a payload (the text of a response, or the list handed to
  \<open>json.dumps\<close>), a literal error string, or \<open>f"Error: {str(e)}"\<close> for a caught
  exception \<open>e\<close>.
\<close>

datatype 'a answer = Payload 'a | Message string | Caught error

text \<open>\<open>str\<close> of an integer, for the status code in an f-string.\<close>

fun str_nat :: "nat \<Rightarrow> string" where
  "str_nat n = (if n < 10 then [char_of (48 + n)] else str_nat (n div 10) @ [char_of (48 + n mod 10)])"

definition str_int :: "int \<Rightarrow> string" where
  "str_int i = (if i < 0 then CHR ''-'' # str_nat (nat (- i)) else str_nat (nat i))"







section \<open>Doctor search (tools.py, doctor-search tool)\<close>

record department =
  dep_name :: "string option"

record doctor_hospital =
  dh_hospitalName :: "string option"

record doctor =
  d_id :: int
  d_name :: "string option"
  d_specialties :: "string list"
  d_departmentResponse :: "department option"
  d_locationResponse :: "location option"
  d_doctorHospitals :: "doctor_hospital list option"

record doctor_args =
  ds_specialties :: "string list option"
  ds_department :: "string option"
  ds_doctor_name :: "string option"
  ds_city :: "string option"
  ds_hospital_name :: "string option"
  ds_top_n :: "int option"

definition default_doctor_args :: doctor_args where
  "default_doctor_args = \<lparr>ds_specialties = None, ds_department = None, ds_doctor_name = None,
     ds_city = None, ds_hospital_name = None, ds_top_n = Some 10\<rparr>"

text \<open>The inner and the outer specialty loop, each leaving at the first match.\<close>

fun doctor_specialty_loop :: "scorer \<Rightarrow> string \<Rightarrow> string list \<Rightarrow> bool" where
  "doctor_specialty_loop ratio search_specialty [] = False"
| "doctor_specialty_loop ratio search_specialty (doctor_specialty # rest) =
     (if 80 \<le> ratio (lower search_specialty) (lower doctor_specialty) then True
      else doctor_specialty_loop ratio search_specialty rest)"

fun specialty_match :: "scorer \<Rightarrow> string list \<Rightarrow> string list \<Rightarrow> bool" where
  "specialty_match ratio [] doctor_specialties = False"
| "specialty_match ratio (search_specialty # rest) doctor_specialties =
     (if doctor_specialty_loop ratio search_specialty doctor_specialties then True
      else specialty_match ratio rest doctor_specialties)"

text \<open>
  \<open>if q: v = ...; if v: (score < 80 \<Rightarrow> return False) else: return False\<close>: whether the
  block returns \<open>False\<close>.
\<close>

definition field_rejects :: "scorer \<Rightarrow> string option \<Rightarrow> string option \<Rightarrow> bool" where
  "field_rejects ratio q v =
     (truthy q \<and> (if truthy v then ratio (lower (the q)) (lower (the v)) < 80 else True))"

fun hospital_match :: "scorer \<Rightarrow> string \<Rightarrow> doctor_hospital list \<Rightarrow> bool" where
  "hospital_match ratio q [] = False"
| "hospital_match ratio q (h # hs) =
     (if truthy (dh_hospitalName h) \<and> 80 \<le> ratio (lower q) (lower (the (dh_hospitalName h)))
      then True else hospital_match ratio q hs)"

definition doctor_filter :: "scorer \<Rightarrow> doctor_args \<Rightarrow> doctor \<Rightarrow> bool" where
  "doctor_filter ratio a d =
     (if truthy (ds_specialties a) \<and> \<not> specialty_match ratio (the (ds_specialties a)) (d_specialties d)
      then False
      else if field_rejects ratio (ds_department a)
                (case d_departmentResponse d of None \<Rightarrow> None | Some r \<Rightarrow> dep_name r)
      then False
      else if field_rejects ratio (ds_doctor_name a) (d_name d) then False
      else if field_rejects ratio (ds_city a)
                (case d_locationResponse d of None \<Rightarrow> None | Some l \<Rightarrow> loc_city l)
      then False
      else if truthy (ds_hospital_name a) \<and>
              \<not> hospital_match ratio (the (ds_hospital_name a))
                  (case d_doctorHospitals d of None \<Rightarrow> [] | Some hs \<Rightarrow> hs)
      then False
      else True)"

definition doctor_search_tool :: "scorer \<Rightarrow> doctor list reply \<Rightarrow> doctor_args \<Rightarrow> doctor list answer" where
  "doctor_search_tool ratio all_doctors a =
     (case all_doctors of
        Raised \<Rightarrow> Caught HTTPError
      | Reply st txt js \<Rightarrow>
          if \<not> is_success st
          then Message (''Error: Failed to fetch doctors. Status: '' @ str_int st)
          else (case js of
                  None \<Rightarrow> Caught JSONDecodeError
                | Some doctors \<Rightarrow>
                    Payload (slice_to (ds_top_n a) (filter (doctor_filter ratio a) doctors))))"

section \<open>The chat endpoint and its tool-call loop (main.py)\<close>

record tool_call =
  tc_name :: string
  tc_args :: string
  tc_id :: string

datatype message =
    SystemMessage string
  | HumanMessage string
  | AIMessage string "tool_call list"
  | ToolMessage string string

text \<open>\<open>.content\<close> of a message; \<open>ToolMessage content tool_call_id\<close>.\<close>

fun content :: "message \<Rightarrow> string" where
  "content (SystemMessage c) = c"
| "content (HumanMessage c) = c"
| "content (AIMessage c calls) = c"
| "content (ToolMessage c i) = c"

text \<open>The tool objects bound in main.py and the dictionary \<open>tool_dict\<close>.\<close>

datatype tool = hospital_search | get_test_by_id | get_tests_by_type | get_tests_by_hospital

definition tool_dict :: "(string \<times> tool) list" where
  "tool_dict = [(''hospital_search'', hospital_search),
                (''get_test_by_id'', get_test_by_id),
                (''get_tests_by_type'', get_tests_by_type),
                (''get_tests_by_hospital_name_or_id'', get_tests_by_hospital)]"

text \<open>
  The model and the tool runtime are parameters: \<open>llm\<close> maps the message history to the
  content and the tool calls of the reply, \<open>run\<close> maps a tool and a call to the content of
  the tool message; either may raise.
\<close>

type_synonym llm = "message list \<Rightarrow> error + (string \<times> tool_call list)"
type_synonym runner = "tool \<Rightarrow> tool_call \<Rightarrow> error + string"

text \<open>
  The list \<open>messages\<close> is appended to in place, so an exception leaves the messages
  appended so far: both outcomes carry the list.
\<close>

datatype outcome = Done "message list" | Failed error "message list"

text \<open>\<open>for tool_call in tool_calls\<close>\<close>

fun run_tool_calls :: "runner \<Rightarrow> tool_call list \<Rightarrow> message list \<Rightarrow> outcome" where
  "run_tool_calls run [] messages = Done messages"
| "run_tool_calls run (tool_call # rest) messages =
     (case map_of tool_dict (lower (tc_name tool_call)) of
        None \<Rightarrow> run_tool_calls run rest messages
      | Some selected_tool \<Rightarrow>
          (case run selected_tool tool_call of
             Inl e \<Rightarrow> Failed e messages
           | Inr out \<Rightarrow> run_tool_calls run rest (messages @ [ToolMessage out (tc_id tool_call)])))"

text \<open>
  \<open>while tool_calls and len(tool_calls) > 0\<close>. The loop has no bound: a run that never
  leaves it is the value \<open>None\<close>.
\<close>

partial_function (option) tool_loop :: "llm \<Rightarrow> runner \<Rightarrow> message list \<Rightarrow> tool_call list \<Rightarrow> outcome option" where
  "tool_loop model run messages tool_calls =
     (if tool_calls = [] then Some (Done messages)
      else (case run_tool_calls run tool_calls messages of
              Failed e ms \<Rightarrow> Some (Failed e ms)
            | Done ms \<Rightarrow>
                (case model ms of
                   Inl e \<Rightarrow> Some (Failed e ms)
                 | Inr (text, calls) \<Rightarrow> tool_loop model run (ms @ [AIMessage text calls]) calls)))"

text \<open>
  The loop read as a relation: \<open>rounds model run messages tool_calls trace final\<close> holds
  when the loop, entered with \<open>messages\<close> and \<open>tool_calls\<close>, goes through one round per
  element of \<open>trace\<close> (the requests of that round) and leaves with the history \<open>final\<close>.
\<close>

inductive rounds :: "llm \<Rightarrow> runner \<Rightarrow> message list \<Rightarrow> tool_call list \<Rightarrow> tool_call list list
    \<Rightarrow> message list \<Rightarrow> bool" where
  settled: "rounds model run messages [] [] messages"
| round: "tool_calls \<noteq> [] \<Longrightarrow> run_tool_calls run tool_calls messages = Done ms \<Longrightarrow>
     model ms = Inr (text, calls) \<Longrightarrow>
     rounds model run (ms @ [AIMessage text calls]) calls trace final \<Longrightarrow>
     rounds model run messages tool_calls (tool_calls # trace) final"

fun is_tool_message :: "message \<Rightarrow> bool" where
  "is_tool_message (ToolMessage c i) = True"
| "is_tool_message m = False"

record message_response =
  r_content :: string
  r_id :: string
  r_role :: string

text \<open>
  \<open>chat_endpoint\<close>: the per-user store maps a user id to its message list. The result is
  the store afterwards and the response or the exception; \<open>None\<close> when the loop never ends.
  The text of the system prompt is a parameter.
\<close>

definition chat_endpoint :: "string \<Rightarrow> llm \<Rightarrow> runner \<Rightarrow> (string \<rightharpoonup> message list) \<Rightarrow> string \<Rightarrow> string
    \<Rightarrow> ((string \<rightharpoonup> message list) \<times> (error + message_response)) option" where
  "chat_endpoint system_prompt model run user_messages userId msg =
     (let messages = (case user_messages userId of
                        None \<Rightarrow> [SystemMessage system_prompt]
                      | Some ms \<Rightarrow> ms) @ [HumanMessage msg]
      in case model messages of
           Inl e \<Rightarrow> Some (user_messages(userId \<mapsto> messages), Inl e)
         | Inr (text, calls) \<Rightarrow>
            (case tool_loop model run (messages @ [AIMessage text calls]) calls of
               None \<Rightarrow> None
             | Some (Failed e ms) \<Rightarrow> Some (user_messages(userId \<mapsto> ms), Inl e)
             | Some (Done ms) \<Rightarrow>
                 Some (user_messages(userId \<mapsto> ms),
                       Inr \<lparr>r_content = content (last ms),
                            r_id = userId @ ''_assistant_'' @ str_nat (length ms),
                            r_role = ''assistant''\<rparr>)))"

section \<open>Concrete instances for evaluation\<close>

text \<open>
  A scorer to evaluate the model with: the normalised indel similarity
  \<open>100 * 2 * lcs / (len s + len t)\<close>, which is what rapidfuzz documents for \<open>fuzz.ratio\<close>.
\<close>

fun lcs :: "'a list \<Rightarrow> 'a list \<Rightarrow> nat" where
  "lcs [] ys = 0"
| "lcs (x # xs) [] = 0"
| "lcs (x # xs) (y # ys) =
     (if x = y then Suc (lcs xs ys) else max (lcs (x # xs) ys) (lcs xs (y # ys)))"

definition indel_ratio :: scorer where
  "indel_ratio s t =
     (if s = [] \<and> t = [] then 100 else 200 * real (lcs s t) / real (length s + length t))"

text \<open>
  A set iteration order to evaluate the model with: ascending identifiers, the order
  CPython shows for a set of small non-negative integers.
\<close>

definition ascending :: set_iter where
  "ascending sets =
     (case sets of [] \<Rightarrow> [] | s # ss \<Rightarrow> sort (remdups (filter (\<lambda>i. \<forall>t \<in> set ss. i \<in> set t) s)))"

definition dhaka :: location where
  "dhaka = \<lparr>loc_city = Some ''Dhaka'', loc_thana = Some ''Dhanmondi'', loc_po = None,
            loc_zoneId = Some 5\<rparr>"

definition hospital_A :: hospital where
  "hospital_A = \<lparr>h_id = 2, h_name = Some ''Alpha Hospital'', h_icus = Some 4,
     h_latitude = Some 0, h_longitude = Some 0, h_locationResponse = Some dhaka\<rparr>"

definition hospital_B :: hospital where
  "hospital_B = \<lparr>h_id = 3, h_name = Some ''Beta Clinic'', h_icus = None,
     h_latitude = None, h_longitude = None, h_locationResponse = Some dhaka\<rparr>"

definition hospital_C :: hospital where
  "hospital_C = \<lparr>h_id = 1, h_name = Some ''Gamma Care'', h_icus = Some 12,
     h_latitude = Some 0, h_longitude = Some 0, h_locationResponse = None\<rparr>"

definition hospital_Z :: hospital where
  "hospital_Z = \<lparr>h_id = 0, h_name = Some ''Zero Point'', h_icus = Some 1,
     h_latitude = None, h_longitude = None, h_locationResponse = None\<rparr>"

definition rated :: "int \<Rightarrow> feedback" where
  "rated r = \<lparr>f_id = 0, f_rating = Some r\<rparr>"

text \<open>
  A backend fixture: hospitals A, B, C fetched in this order, with mean ratings 3, 5
  and 3; BLOOD tests at A and B; LOW cost at B and C, HIGH cost at A; A and B public, C
  private; every other category request answered with status 500.
\<close>

definition fixture :: backend where
  "fixture = \<lparr>
     tests_by_type = (\<lambda>t. if t = ''BLOOD''
        then Reply 200 [] (Some [\<lparr>t_id = 1, t_hospitalResponse = Some hospital_A\<rparr>,
                                 \<lparr>t_id = 2, t_hospitalResponse = None\<rparr>,
                                 \<lparr>t_id = 3, t_hospitalResponse = Some hospital_B\<rparr>])
        else Reply 500 [] None),
     hospitals_by_cost_range = (\<lambda>c. if c = ''LOW'' then Reply 200 [] (Some [hospital_B, hospital_C])
        else if c = ''HIGH'' then Reply 200 [] (Some [hospital_A])
        else Reply 500 [] None),
     hospitals_by_type = (\<lambda>t. if t = ''PUBLIC'' then Reply 200 [] (Some [hospital_A, hospital_B])
        else if t = ''PRIVATE'' then Reply 200 [] (Some [hospital_C])
        else Reply 500 [] None),
     all_hospitals = Reply 200 [] (Some [hospital_A, hospital_B, hospital_C]),
     feedback_by_hospital = (\<lambda>i. if i = 1 then Reply 200 [] (Some [rated 3])
        else if i = 2 then Reply 200 [] (Some [rated 2, rated 4])
        else if i = 3 then Reply 200 [] (Some [rated 5])
        else if i = 0 then Reply 200 [] (Some [rated 4])
        else Reply 404 [] None),
     tests_by_hospital = (\<lambda>i. Reply 200 ''[]'' (Some []))\<rparr>"

text \<open>Three doctors as the doctor service returns them, in this order.\<close>

definition doctor_1 :: doctor where
  "doctor_1 = \<lparr>d_id = 1, d_name = Some ''Dr. Rahman'', d_specialties = [''ENT''],
     d_departmentResponse = Some \<lparr>dep_name = Some ''Surgery''\<rparr>,
     d_locationResponse = Some dhaka,
     d_doctorHospitals = Some [\<lparr>dh_hospitalName = Some ''Alpha Hospital''\<rparr>]\<rparr>"

definition doctor_2 :: doctor where
  "doctor_2 = \<lparr>d_id = 2, d_name = Some ''Dr. Karim'', d_specialties = [''Skin''],
     d_departmentResponse = None, d_locationResponse = None, d_doctorHospitals = None\<rparr>"

definition doctor_3 :: doctor where
  "doctor_3 = \<lparr>d_id = 3, d_name = Some ''Dr. Saha'', d_specialties = [''Eye'', ''ENT''],
     d_departmentResponse = Some \<lparr>dep_name = Some ''Eye Care''\<rparr>,
     d_locationResponse = Some dhaka, d_doctorHospitals = Some []\<rparr>"

definition doctors_reply :: "doctor list reply" where
  "doctors_reply = Reply 200 [] (Some [doctor_1, doctor_2, doctor_3])"

text \<open>
  A tool runtime and a model to evaluate the loop with: the runtime answers every call
  with a fixed text; the model asks for a hospital search, then for a test, then replies.
\<close>

definition echo :: runner where
  "echo selected_tool tool_call = Inr (''result of '' @ tc_id tool_call)"

definition call_1 :: tool_call where
  "call_1 = \<lparr>tc_name = ''Hospital_Search'', tc_args = ''{}'', tc_id = ''call-1''\<rparr>"

definition call_2 :: tool_call where
  "call_2 = \<lparr>tc_name = ''get_test_by_id'', tc_args = ''{}'', tc_id = ''call-2''\<rparr>"

definition scripted :: llm where
  "scripted messages =
     (case last messages of
        HumanMessage c \<Rightarrow> Inr ([], [call_1])
      | ToolMessage c i \<Rightarrow> if i = ''call-1'' then Inr ([], [call_2]) else Inr (''Done.'', [])
      | m \<Rightarrow> Inr (''Hello.'', []))"

section \<open>Enum normalisation\<close>

lemma extractOne_None: "extractOne ratio q cs = None \<longleftrightarrow> cs = []"
  by (cases cs) (auto split: option.splits)

lemma extractOne_char:
  "extractOne ratio q cs = Some (m, s) \<Longrightarrow>
     s = ratio q m \<and> (\<exists>pre post. cs = pre @ m # post \<and> (\<forall>c\<in>set pre. ratio q c < ratio q m)
        \<and> (\<forall>c\<in>set post. ratio q c \<le> ratio q m))"
proof (induction cs arbitrary: m s)
  case Nil
  then show ?case by simp
next
  case (Cons c cs)
  show ?case
  proof (cases "extractOne ratio q cs")
    case None
    then have "cs = []" by (simp add: extractOne_None)
    with Cons.prems have "m = c" "s = ratio q c" by auto
    moreover have "c # cs = [] @ c # []" using \<open>cs = []\<close> by simp
    ultimately show ?thesis by fastforce
  next
    case (Some p)
    obtain m' s' where p: "p = (m', s')" by (cases p)
    from Cons.IH[of m' s'] Some p obtain pre post where
      s': "s' = ratio q m'" and cs: "cs = pre @ m' # post"
      and pre: "\<forall>c\<in>set pre. ratio q c < ratio q m'"
      and post: "\<forall>c\<in>set post. ratio q c \<le> ratio q m'"
      by blast
    show ?thesis
    proof (cases "ratio q c < s'")
      case True
      with Cons.prems Some p have ms: "m = m'" "s = s'" by auto
      have "c # cs = (c # pre) @ m' # post" using cs by simp
      moreover have "\<forall>x\<in>set (c # pre). ratio q x < ratio q m'" using pre True s' by auto
      ultimately show ?thesis using ms s' post by blast
    next
      case False
      with Cons.prems Some p have ms: "m = c" "s = ratio q c" by auto
      have "\<forall>x\<in>set cs. ratio q x \<le> ratio q c"
        using cs pre post False s' by fastforce
      then have "c # cs = [] @ c # cs \<and> (\<forall>x\<in>set []. ratio q x < ratio q c) \<and> (\<forall>x\<in>set cs. ratio q x \<le> ratio q c)"
        by simp
      then show ?thesis using ms by blast
    qed
  qed
qed


lemma fuzzy_enum_match_char:
  assumes "cs \<noteq> []"
  shows "\<exists>m pre post. cs = pre @ m # post \<and> (\<forall>c\<in>set pre. ratio q c < ratio q m)
           \<and> (\<forall>c\<in>set post. ratio q c \<le> ratio q m)
           \<and> fuzzy_enum_match ratio q cs = Inr (if 80 \<le> ratio q m then Some m else None)"
proof -
  from assms obtain m s where e: "extractOne ratio q cs = Some (m, s)"
    using extractOne_None[of ratio q cs] by (cases "extractOne ratio q cs") auto
  from extractOne_char[OF e] obtain pre post where
    "s = ratio q m" "cs = pre @ m # post" "\<forall>c\<in>set pre. ratio q c < ratio q m"
    "\<forall>c\<in>set post. ratio q c \<le> ratio q m" by blast
  moreover from this e have "fuzzy_enum_match ratio q cs = Inr (if 80 \<le> ratio q m then Some m else None)"
    by (simp add: fuzzy_enum_match_def)
  ultimately show ?thesis by blast
qed

lemma fuzzy_enum_match_in:
  "fuzzy_enum_match ratio q cs = Inr (Some m) \<Longrightarrow> m \<in> set cs"
  by (auto simp: fuzzy_enum_match_def split: option.splits if_splits dest!: extractOne_char)


lemma match_tokens_eq:
  assumes "valid \<noteq> []" "[] \<notin> set valid"
  shows "match_tokens ratio valid ts = Inr (concat (map (\<lambda>t. case fuzzy_enum_match ratio t valid of Inr (Some m) \<Rightarrow> [m] | _ \<Rightarrow> []) ts))"
proof (induction ts)
  case Nil
  then show ?case by simp
next
  case (Cons t ts)
  from fuzzy_enum_match_char[OF assms(1), of ratio t] obtain r where
    r: "fuzzy_enum_match ratio t valid = Inr r" by blast
  show ?case
  proof (cases r)
    case None
    with r Cons.IH show ?thesis by (simp add: then_do_def)
  next
    case (Some m)
    with r have "m \<in> set valid" by (simp add: fuzzy_enum_match_in)
    with assms(2) have "m \<noteq> []" by auto
    with Some r Cons.IH show ?thesis by (simp add: then_do_def)
  qed
qed

lemma enum_lists:
  "valid \<in> {TEST_TYPE, COST_RANGE, HOSPITAL_TYPE} \<Longrightarrow> valid \<noteq> [] \<and> [] \<notin> set valid"
  by (auto simp: TEST_TYPE_def COST_RANGE_def HOSPITAL_TYPE_def)



lemma normalized_None: "normalized ratio valid None = Inr None"
  by (simp add: normalized_def truthy_def)

lemma category_absent: "category get f None = Inr []" "category get f (Some []) = Inr []"
  by (simp_all add: category_def truthy_def)

lemma hospital_filter_categories:
  "hospital_filter ratio (a\<lparr>test_types := x\<rparr>) = hospital_filter ratio a"
  "hospital_filter ratio (a\<lparr>cost_ranges := x\<rparr>) = hospital_filter ratio a"
  "hospital_filter ratio (a\<lparr>hospital_types := x\<rparr>) = hospital_filter ratio a"
  by (rule ext, simp add: hospital_filter_def split del: if_split cong: if_cong)+






section \<open>Category fetches that all fail\<close>

lemma normalized_total:
  assumes "valid \<in> {TEST_TYPE, COST_RANGE, HOSPITAL_TYPE}"
  shows "\<exists>r. normalized ratio valid tokens = Inr r"
proof -
  from enum_lists[OF assms] have "valid \<noteq> []" "[] \<notin> set valid" by simp_all
  from match_tokens_eq[OF this, of ratio "the tokens"] show ?thesis
    by (simp add: normalized_def then_do_def)
qed

lemma fetch_each_refused:
  "\<forall>v\<in>set vs. \<exists>st txt js. get v = Reply st txt js \<and> \<not> is_success st \<Longrightarrow> fetch_each get vs = Inr []"
  by (induction vs) auto

lemma category_refused:
  assumes "\<forall>vs. values = Some vs \<longrightarrow> (\<forall>v\<in>set vs. \<exists>st txt js. get v = Reply st txt js \<and> \<not> is_success st)"
  shows "category get f values = Inr []"
proof (cases "truthy values")
  case True
  then obtain vs where "values = Some vs" by (auto simp: truthy_def split: option.splits)
  with assms fetch_each_refused[of vs get] show ?thesis
    by (simp add: category_def then_do_def union_by_id_def)
next
  case False
  then show ?thesis by (simp add: category_def)
qed

lemma hospital_sets_no_categories:
  "hospital_sets ratio be (a\<lparr>test_types := None, cost_ranges := None, hospital_types := None\<rparr>)
     = fetch_all be"
  by (simp add: hospital_sets_def normalized_None then_do_def category_absent)

text \<open>
  Claim C10. When every GET issued for the normalised values of the supplied category
  filters comes back with a status outside 2xx, no set is collected, the all-hospitals
  endpoint is read, and the search returns what it returns with no category filter.
\<close>

theorem failed_categories_fall_back_to_all:
  assumes "\<forall>vs. normalized ratio TEST_TYPE (test_types a) = Inr (Some vs) \<longrightarrow>
             (\<forall>v\<in>set vs. \<exists>st txt js. tests_by_type be v = Reply st txt js \<and> \<not> is_success st)"
    and "\<forall>vs. normalized ratio COST_RANGE (cost_ranges a) = Inr (Some vs) \<longrightarrow>
             (\<forall>v\<in>set vs. \<exists>st txt js. hospitals_by_cost_range be v = Reply st txt js \<and> \<not> is_success st)"
    and "\<forall>vs. normalized ratio HOSPITAL_TYPE (hospital_types a) = Inr (Some vs) \<longrightarrow>
             (\<forall>v\<in>set vs. \<exists>st txt js. hospitals_by_type be v = Reply st txt js \<and> \<not> is_success st)"
  shows "hospital_sets ratio be a = fetch_all be
       \<and> hospital_search_tool iter ratio be a
           = hospital_search_tool iter ratio be
               (a\<lparr>test_types := None, cost_ranges := None, hospital_types := None\<rparr>)"
proof -
  obtain tt where tt: "normalized ratio TEST_TYPE (test_types a) = Inr tt"
    using normalized_total[of TEST_TYPE ratio "test_types a"] by auto
  obtain cr where cr: "normalized ratio COST_RANGE (cost_ranges a) = Inr cr"
    using normalized_total[of COST_RANGE ratio "cost_ranges a"] by auto
  obtain ht where ht: "normalized ratio HOSPITAL_TYPE (hospital_types a) = Inr ht"
    using normalized_total[of HOSPITAL_TYPE ratio "hospital_types a"] by auto
  have c1: "category (tests_by_type be) hospitals_of_tests tt = Inr []"
    using assms(1) tt by (intro category_refused) simp
  have c2: "category (hospitals_by_cost_range be) (\<lambda>hs. hs) cr = Inr []"
    using assms(2) cr by (intro category_refused) simp
  have c3: "category (hospitals_by_type be) (\<lambda>hs. hs) ht = Inr []"
    using assms(3) ht by (intro category_refused) simp
  have sets: "hospital_sets ratio be a = fetch_all be"
    by (simp add: hospital_sets_def tt cr ht c1 c2 c3 then_do_def)
  have "hospital_filter ratio (a\<lparr>test_types := None, cost_ranges := None, hospital_types := None\<rparr>)
          = hospital_filter ratio a"
    by (simp add: hospital_filter_categories)
  with sets show ?thesis
    by (simp add: hospital_search_tool_def candidate_pool_def hospital_sets_no_categories)
qed

theorem failed_categories_fall_back_to_all_witness:
  "normalized indel_ratio TEST_TYPE (Some [''HEART'']) = Inr (Some [''HEART''])
   \<and> tests_by_type fixture ''HEART'' = Reply 500 [] None
   \<and> hospital_sets indel_ratio fixture (default_args\<lparr>test_types := Some [''HEART'']\<rparr>)
       = Inr [[hospital_A, hospital_B, hospital_C]]
   \<and> hospital_search_tool ascending indel_ratio fixture (default_args\<lparr>test_types := Some [''HEART'']\<rparr>)
       = hospital_search_tool ascending indel_ratio fixture default_args"
proof -
  let ?a = "default_args\<lparr>test_types := Some [''HEART'']\<rparr>"
  have n: "normalized indel_ratio TEST_TYPE (Some [''HEART'']) = Inr (Some [''HEART''])"
    by (simp add: normalized_def truthy_def then_do_def fuzzy_enum_match_def indel_ratio_def TEST_TYPE_def)
  have r: "tests_by_type fixture ''HEART'' = Reply 500 [] None"
    by (simp add: fixture_def)
  have h1: "\<forall>vs. normalized indel_ratio TEST_TYPE (test_types ?a) = Inr (Some vs) \<longrightarrow>
             (\<forall>v\<in>set vs. \<exists>st txt js. tests_by_type fixture v = Reply st txt js \<and> \<not> is_success st)"
    using n r by (simp add: is_success_def)
  have h2: "\<forall>vs. normalized indel_ratio COST_RANGE (cost_ranges ?a) = Inr (Some vs) \<longrightarrow>
             (\<forall>v\<in>set vs. \<exists>st txt js. hospitals_by_cost_range fixture v = Reply st txt js \<and> \<not> is_success st)"
    by (simp add: default_args_def normalized_None)
  have h3: "\<forall>vs. normalized indel_ratio HOSPITAL_TYPE (hospital_types ?a) = Inr (Some vs) \<longrightarrow>
             (\<forall>v\<in>set vs. \<exists>st txt js. hospitals_by_type fixture v = Reply st txt js \<and> \<not> is_success st)"
    by (simp add: default_args_def normalized_None)
  have f: "fetch_all fixture = Inr [[hospital_A, hospital_B, hospital_C]]"
    by (simp add: fetch_all_def fixture_def is_success_def json_of_def then_do_def)
  have d: "?a\<lparr>test_types := None, cost_ranges := None, hospital_types := None\<rparr> = default_args"
    by (simp add: default_args_def)
  from failed_categories_fall_back_to_all[OF h1 h2 h3, of ascending] f d n r
  show ?thesis by simp
qed

section \<open>Dictionaries by identifier\<close>

lemma map_of_dict_set: "map_of (dict_set k v d) = (map_of d)(k \<mapsto> v)"
  by (induction d) (auto simp: fun_eq_iff)













section \<open>The candidate pool\<close>


lemma common_ids_subset: "s \<in> set sets \<Longrightarrow> common_ids sets \<subseteq> set s"
  by (auto simp: common_ids_def)









section \<open>The fixture evaluated\<close>

lemma fixture_ids: "h_id hospital_A = 2" "h_id hospital_B = 3" "h_id hospital_C = 1" "h_id hospital_Z = 0"
  by (simp_all add: hospital_A_def hospital_B_def hospital_C_def hospital_Z_def)











lemma fixture_unfiltered:
  "hospital_sets indel_ratio fixture default_args = Inr [[hospital_A, hospital_B, hospital_C]]"
  by (simp add: hospital_sets_def default_args_def normalized_None then_do_def
      category_absent fetch_all_def fixture_def is_success_def json_of_def)

lemma fixture_pool_unfiltered:
  "intersect_hospitals ascending [[hospital_A, hospital_B, hospital_C]]
     = Inr [hospital_C, hospital_A, hospital_B]"
  by (simp add: intersect_hospitals_def ascending_def by_id_def fixture_ids then_do_def)




section \<open>The rating pass\<close>

lemma rate_hospital_of: "hospital_of (rate be h) = h"
  by (simp add: rate_def unrated_def Let_def split: reply.splits option.splits)

lemma rate_average: "averageRating (rate be h) = mean (ratings (rate be h))"
  by (simp add: rate_def unrated_def mean_def Let_def split: reply.splits option.splits)

lemma rate_fetched:
  assumes "h_id h \<noteq> 0" "feedback_by_hospital be (h_id h) = Reply st txt (Some fbs)" "is_success st"
  shows "ratings (rate be h) = map the (filter (\<lambda>r. r \<noteq> None) (map f_rating fbs))"
  using assms by (simp add: rate_def Let_def map_filter_def filter_map comp_def)

lemma rate_degraded:
  assumes "feedback_by_hospital be (h_id h) = Raised
           \<or> (\<exists>st txt js. feedback_by_hospital be (h_id h) = Reply st txt js \<and> (\<not> is_success st \<or> js = None))"
  shows "ratings (rate be h) = []"
  using assms by (auto simp: rate_def unrated_def)

lemma search_never_fails_in_rating:
  assumes "candidate_pool iter ratio be a = Inr pool"
  shows "\<exists>result. hospital_search_tool iter ratio be a = Inr result
          \<and> (\<forall>r\<in>set result. \<exists>h\<in>set pool. hospital_filter ratio a h \<and> r = rate be h)"
proof -
  let ?rated = "map (rate be) (filter (hospital_filter ratio a) pool)"
  have r: "hospital_search_tool iter ratio be a = Inr (slice_to (top_n a) (sorted_reverse averageRating ?rated))"
    using assms by (simp add: hospital_search_tool_def then_do_def)
  have "set (slice_to (top_n a) (sorted_reverse averageRating ?rated)) \<subseteq> set (sorted_reverse averageRating ?rated)"
    by (auto simp: slice_to_def split: option.splits dest: in_set_takeD)
  also have "\<dots> = set ?rated" by (simp add: sorted_reverse_def)
  finally show ?thesis using r by auto
qed

text \<open>
  Claim C5, amended. For a hospital whose identifier is not 0, the rating pass stores the
  ratings that are present in the fetched feedback entries, in order, and their
  arithmetic mean; with no rating, a status outside 2xx, a body that does not decode or
  an exception of the client it stores the empty list and the average 0. Once the
  candidate pool is there the search returns a result, and every record of it is a
  surviving hospital rated this way.
\<close>

theorem rating_pass:
  assumes "h_id h \<noteq> 0"
  shows "hospital_of (rate be h) = h
       \<and> (feedback_by_hospital be (h_id h) = Reply st raw (Some fbs) \<and> is_success st \<longrightarrow>
            ratings (rate be h) = map the (filter (\<lambda>r. r \<noteq> None) (map f_rating fbs)))
       \<and> (feedback_by_hospital be (h_id h) = Raised
            \<or> (\<exists>st txt js. feedback_by_hospital be (h_id h) = Reply st txt js
                  \<and> (\<not> is_success st \<or> js = None)) \<longrightarrow>
            ratings (rate be h) = [])
       \<and> averageRating (rate be h)
           = (if ratings (rate be h) = [] then 0
              else real_of_int (sum_list (ratings (rate be h))) / real (length (ratings (rate be h))))
       \<and> (candidate_pool iter ratio be a = Inr pool \<longrightarrow>
            (\<exists>result. hospital_search_tool iter ratio be a = Inr result
               \<and> (\<forall>r\<in>set result. \<exists>h\<in>set pool. hospital_filter ratio a h \<and> r = rate be h)))"
proof (intro conjI impI)
  show "hospital_of (rate be h) = h" by (rule rate_hospital_of)
next
  assume "feedback_by_hospital be (h_id h) = Reply st raw (Some fbs) \<and> is_success st"
  with assms show "ratings (rate be h) = map the (filter (\<lambda>r. r \<noteq> None) (map f_rating fbs))"
    by (simp add: rate_fetched)
next
  assume "feedback_by_hospital be (h_id h) = Raised
            \<or> (\<exists>st txt js. feedback_by_hospital be (h_id h) = Reply st txt js
                  \<and> (\<not> is_success st \<or> js = None))"
  then show "ratings (rate be h) = []" by (rule rate_degraded)
next
  show "averageRating (rate be h)
           = (if ratings (rate be h) = [] then 0
              else real_of_int (sum_list (ratings (rate be h))) / real (length (ratings (rate be h))))"
    by (simp add: rate_average mean_def)
next
  assume "candidate_pool iter ratio be a = Inr pool"
  then show "\<exists>result. hospital_search_tool iter ratio be a = Inr result
               \<and> (\<forall>r\<in>set result. \<exists>h\<in>set pool. hospital_filter ratio a h \<and> r = rate be h)"
    by (rule search_never_fails_in_rating)
qed

lemma fixture_rates:
  "rate fixture hospital_A = \<lparr>hospital_of = hospital_A, ratings = [2, 4], averageRating = 3\<rparr>"
  "rate fixture hospital_B = \<lparr>hospital_of = hospital_B, ratings = [5], averageRating = 5\<rparr>"
  "rate fixture hospital_C = \<lparr>hospital_of = hospital_C, ratings = [3], averageRating = 3\<rparr>"
  "rate fixture hospital_Z = \<lparr>hospital_of = hospital_Z, ratings = [], averageRating = 0\<rparr>"
  by (simp_all add: rate_def fixture_ids fixture_def is_success_def map_filter_def rated_def
      mean_def unrated_def)

theorem rating_pass_witness:
  "h_id hospital_A \<noteq> 0
   \<and> feedback_by_hospital fixture (h_id hospital_A) = Reply 200 [] (Some [rated 2, rated 4])
   \<and> is_success 200
   \<and> ratings (rate fixture hospital_A) = [2, 4]
   \<and> averageRating (rate fixture hospital_A) = 3"
proof -
  have h: "h_id hospital_A \<noteq> 0" by (simp add: fixture_ids)
  have f: "feedback_by_hospital fixture (h_id hospital_A) = Reply 200 [] (Some [rated 2, rated 4])"
    by (simp add: fixture_def fixture_ids)
  have s: "is_success 200" by (simp add: is_success_def)
  note inst = rating_pass[OF h, where be = fixture and st = 200 and raw = "[]"
      and fbs = "[rated 2, rated 4]"]
  from inst[THEN conjunct2, THEN conjunct1, THEN mp, OF conjI[OF f s]]
  have r: "ratings (rate fixture hospital_A) = [2, 4]" by (simp add: rated_def)
  from inst[THEN conjunct2, THEN conjunct2, THEN conjunct2, THEN conjunct1] r
  have "averageRating (rate fixture hospital_A) = 3" by simp
  with h f s r show ?thesis by simp
qed

lemma top_n_default: "top_n default_args = Some 5"
  by (simp add: default_args_def)

text \<open>
  Claim C5 as stated fails for a hospital with identifier 0: the guard \<open>if hospital_id\<close>
  skips the fetch, although the feedback service has a rating for it.
\<close>

theorem rating_pass_counterexample:
  "feedback_by_hospital fixture (h_id hospital_Z) = Reply 200 [] (Some [rated 4])
   \<and> hospital_search_tool ascending indel_ratio
        (fixture\<lparr>all_hospitals := Reply 200 [] (Some [hospital_Z])\<rparr>) default_args
       = Inr [\<lparr>hospital_of = hospital_Z, ratings = [], averageRating = 0\<rparr>]
   \<and> map the (filter (\<lambda>r. r \<noteq> None) (map f_rating [rated 4])) = [4]"
proof -
  let ?be = "fixture\<lparr>all_hospitals := Reply 200 [] (Some [hospital_Z])\<rparr>"
  have sets: "hospital_sets indel_ratio ?be default_args = Inr [[hospital_Z]]"
    by (simp add: hospital_sets_def default_args_def normalized_None then_do_def
        category_absent fetch_all_def is_success_def json_of_def)
  have pool: "intersect_hospitals ascending [[hospital_Z]] = Inr [hospital_Z]"
    by (simp add: intersect_hospitals_def ascending_def by_id_def fixture_ids then_do_def)
  have keep: "hospital_filter indel_ratio default_args hospital_Z"
    by (simp add: hospital_filter_def default_args_def text_rejects_def truthy_def truthy_int_def)
  have rz: "rate ?be hospital_Z = \<lparr>hospital_of = hospital_Z, ratings = [], averageRating = 0\<rparr>"
    by (simp add: rate_def fixture_ids unrated_def)
  have "hospital_search_tool ascending indel_ratio ?be default_args
       = Inr [\<lparr>hospital_of = hospital_Z, ratings = [], averageRating = 0\<rparr>]"
    by (simp add: hospital_search_tool_def candidate_pool_def sets pool then_do_def keep rz
        sorted_reverse_def slice_to_def top_n_default)
  moreover have "feedback_by_hospital fixture (h_id hospital_Z) = Reply 200 [] (Some [rated 4])"
    by (simp add: fixture_def fixture_ids)
  moreover have "map the (filter (\<lambda>r. r \<noteq> None) (map f_rating [rated 4])) = [4]"
    by (simp add: rated_def)
  ultimately show ?thesis by simp
qed

section \<open>The ranking\<close>

lemma sorted_reverse_mset: "mset (sorted_reverse f xs) = mset xs"
  by (simp add: sorted_reverse_def)

lemma sorted_reverse_descending: "sorted_wrt (\<lambda>x y. f y \<le> f x) (sorted_reverse f xs)"
proof -
  have "sorted (map f (sort_key f (rev xs)))" by (rule sorted_sort_key)
  then have "sorted_wrt (\<lambda>x y. f x \<le> f y) (sort_key f (rev xs))"
    by (simp add: sorted_wrt_map)
  then show ?thesis
    by (simp add: sorted_reverse_def sorted_wrt_rev)
qed

lemma sorted_reverse_stable:
  "filter (\<lambda>x. f x = k) (sorted_reverse f xs) = filter (\<lambda>x. f x = k) xs"
proof -
  have "filter (\<lambda>x. f x = k) (sorted_reverse f xs) = rev (filter (\<lambda>x. f x = k) (sort_key f (rev xs)))"
    by (simp add: sorted_reverse_def rev_filter)
  also have "\<dots> = rev (filter (\<lambda>x. f x = k) (rev xs))"
    by (simp only: sort_key_stable)
  also have "\<dots> = filter (\<lambda>x. f x = k) xs"
    by (simp add: rev_filter)
  finally show ?thesis .
qed

lemma slice_to_take: "0 \<le> n \<Longrightarrow> slice_to (Some n) xs = take (nat n) xs"
  by (simp add: slice_to_def)

text \<open>
  Claim C1, amended. The returned list is the rated surviving candidates in descending
  order of average rating, cut to \<open>top_n\<close> (5 by default); records of equal average keep
  the order they have in the candidate pool, which is the order in which the set of
  common identifiers iterates and not the order of the fetch.
\<close>

theorem ranking_is_stable_descending_sort:
  assumes "candidate_pool iter ratio be a = Inr pool"
  shows "\<exists>ranking. hospital_search_tool iter ratio be a = Inr (slice_to (top_n a) ranking)
          \<and> mset ranking = mset (map (rate be) (filter (hospital_filter ratio a) pool))
          \<and> sorted_wrt (\<lambda>x y. averageRating y \<le> averageRating x) ranking
          \<and> (\<forall>k. filter (\<lambda>r. averageRating r = k) ranking
                 = filter (\<lambda>r. averageRating r = k) (map (rate be) (filter (hospital_filter ratio a) pool)))
          \<and> (\<forall>n. top_n a = Some n \<and> 0 \<le> n \<longrightarrow> slice_to (top_n a) ranking = take (nat n) ranking)
          \<and> top_n default_args = Some 5"
proof -
  let ?rated = "map (rate be) (filter (hospital_filter ratio a) pool)"
  let ?ranking = "sorted_reverse averageRating ?rated"
  have "hospital_search_tool iter ratio be a = Inr (slice_to (top_n a) ?ranking)"
    using assms by (simp add: hospital_search_tool_def then_do_def)
  moreover have "mset ?ranking = mset ?rated" by (rule sorted_reverse_mset)
  moreover have "sorted_wrt (\<lambda>x y. averageRating y \<le> averageRating x) ?ranking"
    by (rule sorted_reverse_descending)
  moreover have "\<forall>k. filter (\<lambda>r. averageRating r = k) ?ranking = filter (\<lambda>r. averageRating r = k) ?rated"
    by (simp add: sorted_reverse_stable)
  moreover have "\<forall>n. top_n a = Some n \<and> 0 \<le> n \<longrightarrow> slice_to (top_n a) ?ranking = take (nat n) ?ranking"
    by (simp add: slice_to_take)
  ultimately show ?thesis using top_n_default by blast
qed

lemma default_args_keep_all: "hospital_filter ratio default_args h"
  by (simp add: hospital_filter_def default_args_def text_rejects_def truthy_def truthy_int_def)

lemma fixture_search:
  "hospital_search_tool ascending indel_ratio fixture default_args
     = Inr [rate fixture hospital_B, rate fixture hospital_C, rate fixture hospital_A]"
proof -
  have "sorted_reverse averageRating [rate fixture hospital_C, rate fixture hospital_A, rate fixture hospital_B]
      = [rate fixture hospital_B, rate fixture hospital_C, rate fixture hospital_A]"
    by (simp add: sorted_reverse_def fixture_rates)
  then show ?thesis
    by (simp add: hospital_search_tool_def candidate_pool_def fixture_unfiltered
        fixture_pool_unfiltered then_do_def default_args_keep_all slice_to_def top_n_default)
qed

theorem ranking_is_stable_descending_sort_witness:
  "candidate_pool ascending indel_ratio fixture default_args = Inr [hospital_C, hospital_A, hospital_B]
   \<and> hospital_search_tool ascending indel_ratio fixture default_args
       = Inr [rate fixture hospital_B, rate fixture hospital_C, rate fixture hospital_A]
   \<and> map averageRating [rate fixture hospital_B, rate fixture hospital_C, rate fixture hospital_A]
       = [5, 3, 3]"
proof -
  have p: "candidate_pool ascending indel_ratio fixture default_args
       = Inr [hospital_C, hospital_A, hospital_B]"
    by (simp add: candidate_pool_def fixture_unfiltered then_do_def fixture_pool_unfiltered)
  from ranking_is_stable_descending_sort[OF p]
  obtain ranking where
    "hospital_search_tool ascending indel_ratio fixture default_args
       = Inr (slice_to (top_n default_args) ranking)"
    by blast
  with p fixture_search show ?thesis by (simp add: fixture_rates)
qed

text \<open>
  Claim C1 as stated fails: A, B, C are fetched in this order with averages 3, 5, 3, and
  the search returns B, C, A, where a sort that keeps the fetch order among equal
  averages gives B, A, C.
\<close>

theorem ranking_is_stable_descending_sort_counterexample:
  "all_hospitals fixture = Reply 200 [] (Some [hospital_A, hospital_B, hospital_C])
   \<and> map averageRating (map (rate fixture) [hospital_A, hospital_B, hospital_C]) = [3, 5, 3]
   \<and> hospital_search_tool ascending indel_ratio fixture default_args
       = Inr [rate fixture hospital_B, rate fixture hospital_C, rate fixture hospital_A]
   \<and> slice_to (Some 5) (sorted_reverse averageRating (map (rate fixture) [hospital_A, hospital_B, hospital_C]))
       = [rate fixture hospital_B, rate fixture hospital_A, rate fixture hospital_C]
   \<and> rate fixture hospital_A \<noteq> rate fixture hospital_C"
proof -
  have "all_hospitals fixture = Reply 200 [] (Some [hospital_A, hospital_B, hospital_C])"
    by (simp add: fixture_def)
  moreover have "map averageRating (map (rate fixture) [hospital_A, hospital_B, hospital_C]) = [3, 5, 3]"
    by (simp add: fixture_rates)
  moreover have "slice_to (Some 5) (sorted_reverse averageRating (map (rate fixture) [hospital_A, hospital_B, hospital_C]))
       = [rate fixture hospital_B, rate fixture hospital_A, rate fixture hospital_C]"
    by (simp add: slice_to_def sorted_reverse_def fixture_rates)
  moreover have "rate fixture hospital_A \<noteq> rate fixture hospital_C"
    by (simp add: fixture_rates)
  ultimately show ?thesis using fixture_search by simp
qed

section \<open>The haversine distance\<close>


lemma cos_product: "cos p * cos q = (cos (p - q) + cos (p + q)) / 2" for p q :: real
  by (simp add: cos_diff cos_add)






section \<open>The filter pass\<close>














section \<open>Doctor search\<close>

lemma doctor_specialty_loop_iff:
  "doctor_specialty_loop ratio s ds \<longleftrightarrow> (\<exists>t\<in>set ds. 80 \<le> ratio (lower s) (lower t))"
  by (induction ds) auto

lemma specialty_match_iff:
  "specialty_match ratio ss ds \<longleftrightarrow> (\<exists>s\<in>set ss. \<exists>t\<in>set ds. 80 \<le> ratio (lower s) (lower t))"
  by (induction ss) (auto simp: doctor_specialty_loop_iff)

lemma hospital_match_iff:
  "hospital_match ratio q hs \<longleftrightarrow>
     (\<exists>h\<in>set hs. \<exists>t. dh_hospitalName h = Some t \<and> t \<noteq> [] \<and> 80 \<le> ratio (lower q) (lower t))"
  by (induction hs) (auto simp: truthy_def split: option.splits)

lemma field_piece:
  "\<not> field_rejects ratio q v \<longleftrightarrow>
     (\<forall>s. q = Some s \<and> s \<noteq> [] \<longrightarrow> (\<exists>t. v = Some t \<and> t \<noteq> [] \<and> 80 \<le> ratio (lower s) (lower t)))"
  by (cases q; cases v) (auto simp: field_rejects_def truthy_def not_less)

lemma if_chain: "(if c then False else x) \<longleftrightarrow> \<not> c \<and> x" "(if c then x else True) \<longleftrightarrow> (c \<longrightarrow> x)"
  by simp_all

lemma doctor_filter_chain:
  "doctor_filter ratio a d \<longleftrightarrow>
     \<not> (truthy (ds_specialties a) \<and> \<not> specialty_match ratio (the (ds_specialties a)) (d_specialties d))
   \<and> \<not> field_rejects ratio (ds_department a)
         (case d_departmentResponse d of None \<Rightarrow> None | Some r \<Rightarrow> dep_name r)
   \<and> \<not> field_rejects ratio (ds_doctor_name a) (d_name d)
   \<and> \<not> field_rejects ratio (ds_city a)
         (case d_locationResponse d of None \<Rightarrow> None | Some l \<Rightarrow> loc_city l)
   \<and> \<not> (truthy (ds_hospital_name a) \<and>
          \<not> hospital_match ratio (the (ds_hospital_name a))
               (case d_doctorHospitals d of None \<Rightarrow> [] | Some hs \<Rightarrow> hs))"
  unfolding doctor_filter_def if_chain by blast

lemma specialties_piece:
  "\<not> (truthy q \<and> \<not> specialty_match ratio (the q) ds) \<longleftrightarrow>
     (\<forall>ss. q = Some ss \<and> ss \<noteq> [] \<longrightarrow> (\<exists>s\<in>set ss. \<exists>t\<in>set ds. 80 \<le> ratio (lower s) (lower t)))"
  by (cases q) (auto simp: truthy_def specialty_match_iff)

lemma department_piece:
  "(\<exists>t. (case r of None \<Rightarrow> None | Some x \<Rightarrow> f x) = Some t \<and> P t)
     \<longleftrightarrow> (\<exists>x t. r = Some x \<and> f x = Some t \<and> P t)"
  by (cases r) auto

lemma hospitals_piece:
  "\<not> (truthy q \<and> \<not> hospital_match ratio (the q) (case hs of None \<Rightarrow> [] | Some l \<Rightarrow> l)) \<longleftrightarrow>
     (\<forall>s. q = Some s \<and> s \<noteq> [] \<longrightarrow>
        (\<exists>l h t. hs = Some l \<and> h \<in> set l \<and> dh_hospitalName h = Some t \<and> t \<noteq> []
           \<and> 80 \<le> ratio (lower s) (lower t)))"
  by (cases q; cases hs) (auto simp: truthy_def hospital_match_iff)

lemma doctor_filter_iff:
  "doctor_filter ratio a d \<longleftrightarrow>
     (\<forall>ss. ds_specialties a = Some ss \<and> ss \<noteq> [] \<longrightarrow>
        (\<exists>s\<in>set ss. \<exists>t\<in>set (d_specialties d). 80 \<le> ratio (lower s) (lower t)))
   \<and> (\<forall>s. ds_department a = Some s \<and> s \<noteq> [] \<longrightarrow>
        (\<exists>r t. d_departmentResponse d = Some r \<and> dep_name r = Some t \<and> t \<noteq> []
           \<and> 80 \<le> ratio (lower s) (lower t)))
   \<and> (\<forall>s. ds_doctor_name a = Some s \<and> s \<noteq> [] \<longrightarrow>
        (\<exists>t. d_name d = Some t \<and> t \<noteq> [] \<and> 80 \<le> ratio (lower s) (lower t)))
   \<and> (\<forall>s. ds_city a = Some s \<and> s \<noteq> [] \<longrightarrow>
        (\<exists>l t. d_locationResponse d = Some l \<and> loc_city l = Some t \<and> t \<noteq> []
           \<and> 80 \<le> ratio (lower s) (lower t)))
   \<and> (\<forall>s. ds_hospital_name a = Some s \<and> s \<noteq> [] \<longrightarrow>
        (\<exists>l h t. d_doctorHospitals d = Some l \<and> h \<in> set l \<and> dh_hospitalName h = Some t
           \<and> t \<noteq> [] \<and> 80 \<le> ratio (lower s) (lower t)))"
  unfolding doctor_filter_chain specialties_piece field_piece hospitals_piece department_piece
  by (rule refl)


text \<open>
  Claim C8. With the doctor list fetched and \<open>top_n\<close> a non-negative count, the tool returns
  the first \<open>top_n\<close> (10 by default) of the fetched doctors that pass every supplied
  filter, in the order of the fetch and as they were fetched. A filter is supplied when
  it is a non-empty string or list. The specialties filter passes when some queried
  specialty scores at least 80 against some specialty of the doctor; the hospital filter
  when some affiliated hospital name does; department, doctor name and city when the
  record has the field and it scores at least 80. Strings are compared lower-cased.
\<close>

theorem doctor_search_result:
  assumes "all_doctors = Reply st raw (Some doctors)" and "is_success st"
    and "ds_top_n a = Some n" and "0 \<le> n"
  shows "doctor_search_tool ratio all_doctors a =
           Payload (take (nat n) (filter (\<lambda>d.
               (\<forall>ss. ds_specialties a = Some ss \<and> ss \<noteq> [] \<longrightarrow>
                  (\<exists>s\<in>set ss. \<exists>t\<in>set (d_specialties d). 80 \<le> ratio (lower s) (lower t)))
             \<and> (\<forall>s. ds_department a = Some s \<and> s \<noteq> [] \<longrightarrow>
                  (\<exists>r t. d_departmentResponse d = Some r \<and> dep_name r = Some t \<and> t \<noteq> []
                     \<and> 80 \<le> ratio (lower s) (lower t)))
             \<and> (\<forall>s. ds_doctor_name a = Some s \<and> s \<noteq> [] \<longrightarrow>
                  (\<exists>t. d_name d = Some t \<and> t \<noteq> [] \<and> 80 \<le> ratio (lower s) (lower t)))
             \<and> (\<forall>s. ds_city a = Some s \<and> s \<noteq> [] \<longrightarrow>
                  (\<exists>l t. d_locationResponse d = Some l \<and> loc_city l = Some t \<and> t \<noteq> []
                     \<and> 80 \<le> ratio (lower s) (lower t)))
             \<and> (\<forall>s. ds_hospital_name a = Some s \<and> s \<noteq> [] \<longrightarrow>
                  (\<exists>l h t. d_doctorHospitals d = Some l \<and> h \<in> set l \<and> dh_hospitalName h = Some t
                     \<and> t \<noteq> [] \<and> 80 \<le> ratio (lower s) (lower t)))) doctors))
       \<and> ds_top_n default_doctor_args = Some 10"
proof -
  have "doctor_search_tool ratio all_doctors a
          = Payload (take (nat n) (filter (doctor_filter ratio a) doctors))"
    using assms by (simp add: doctor_search_tool_def slice_to_def)
  moreover have "ds_top_n default_doctor_args = Some 10"
    by (simp add: default_doctor_args_def)
  ultimately show ?thesis
    by (simp only: doctor_filter_iff[abs_def] simp_thms)
qed

lemma ennt_scores:
  "indel_ratio (lower ''Ennt'') (lower ''ENT'') = 600 / 7"
  "indel_ratio (lower ''Ennt'') (lower ''Skin'') = 200 / 8"
  "indel_ratio (lower ''Ennt'') (lower ''Eye'') = 200 / 7"
  by (simp_all add: indel_ratio_def lower_def lower_char_def)

lemma fixture_doctor_filter:
  "doctor_filter indel_ratio (default_doctor_args\<lparr>ds_specialties := Some [''Ennt'']\<rparr>) doctor_1"
  "\<not> doctor_filter indel_ratio (default_doctor_args\<lparr>ds_specialties := Some [''Ennt'']\<rparr>) doctor_2"
  "doctor_filter indel_ratio (default_doctor_args\<lparr>ds_specialties := Some [''Ennt'']\<rparr>) doctor_3"
  by (simp_all add: doctor_filter_chain default_doctor_args_def truthy_def field_rejects_def
      doctor_1_def doctor_2_def doctor_3_def ennt_scores)

theorem doctor_search_result_witness:
  "doctors_reply = Reply 200 [] (Some [doctor_1, doctor_2, doctor_3])
   \<and> is_success 200
   \<and> ds_top_n (default_doctor_args\<lparr>ds_specialties := Some [''Ennt'']\<rparr>) = Some 10
   \<and> doctor_search_tool indel_ratio doctors_reply (default_doctor_args\<lparr>ds_specialties := Some [''Ennt'']\<rparr>)
       = Payload [doctor_1, doctor_3]"
proof -
  let ?a = "default_doctor_args\<lparr>ds_specialties := Some [''Ennt'']\<rparr>"
  have r: "doctors_reply = Reply 200 [] (Some [doctor_1, doctor_2, doctor_3])"
    by (simp add: doctors_reply_def)
  have s: "is_success 200" by (simp add: is_success_def)
  have t: "ds_top_n ?a = Some 10" by (simp add: default_doctor_args_def)
  have n: "(0::int) \<le> 10" by simp
  have "doctor_search_tool indel_ratio doctors_reply ?a
          = Payload (take (nat 10) (filter (doctor_filter indel_ratio ?a) [doctor_1, doctor_2, doctor_3]))"
    using doctor_search_result[OF r s t n, of indel_ratio, THEN conjunct1]
    by (simp only: doctor_filter_iff[abs_def])
  then have "doctor_search_tool indel_ratio doctors_reply ?a = Payload [doctor_1, doctor_3]"
    by (simp add: fixture_doctor_filter)
  with r s t show ?thesis by simp
qed

section \<open>Lookup by hospital name or identifier\<close>







section \<open>The registry\<close>

lemma registered_names:
  "map_of tool_dict name \<noteq> None \<longleftrightarrow>
     name \<in> {''hospital_search'', ''get_test_by_id'', ''get_tests_by_type'',
              ''get_tests_by_hospital_name_or_id''}"
  by (simp add: tool_dict_def)

lemma run_tool_calls_registered:
  assumes "map_of tool_dict (lower (tc_name c)) = Some t" "run t c = Inr out"
  shows "run_tool_calls run (c # cs) ms = run_tool_calls run cs (ms @ [ToolMessage out (tc_id c)])"
  using assms by simp

lemma run_tool_calls_skipped:
  assumes "map_of tool_dict (lower (tc_name c)) = None"
  shows "run_tool_calls run (c # cs) ms = run_tool_calls run cs ms"
  using assms by simp


text \<open>
  Claim C7, amended. The registry of the endpoint holds four names: hospital_search,
  get_test_by_id, get_tests_by_type and get_tests_by_hospital_name_or_id. A request whose
  lower-cased name is one of them resolves to its handler, and when the handler returns,
  one tool message with the request's id is appended before the remaining requests run. A
  request with any other name, get_hospital_feedbacks and doctor_search included, is
  skipped: nothing is appended and nothing is raised.
\<close>

theorem registry_dispatch:
  "(map_of tool_dict (lower (tc_name c)) \<noteq> None \<longleftrightarrow>
      lower (tc_name c) \<in> {''hospital_search'', ''get_test_by_id'', ''get_tests_by_type'',
                             ''get_tests_by_hospital_name_or_id''})
   \<and> (map_of tool_dict (lower (tc_name c)) = Some t \<and> run t c = Inr out \<longrightarrow>
        run_tool_calls run (c # cs) ms = run_tool_calls run cs (ms @ [ToolMessage out (tc_id c)]))
   \<and> (map_of tool_dict (lower (tc_name c)) = None \<longrightarrow>
        run_tool_calls run (c # cs) ms = run_tool_calls run cs ms)
   \<and> map_of tool_dict ''hospital_search'' = Some hospital_search
   \<and> map_of tool_dict ''get_test_by_id'' = Some get_test_by_id
   \<and> map_of tool_dict ''get_tests_by_type'' = Some get_tests_by_type
   \<and> map_of tool_dict ''get_tests_by_hospital_name_or_id'' = Some get_tests_by_hospital
   \<and> map_of tool_dict ''get_hospital_feedbacks'' = None
   \<and> map_of tool_dict ''doctor_search'' = None"
proof (intro conjI impI)
  show "map_of tool_dict (lower (tc_name c)) \<noteq> None \<longleftrightarrow>
      lower (tc_name c) \<in> {''hospital_search'', ''get_test_by_id'', ''get_tests_by_type'',
                             ''get_tests_by_hospital_name_or_id''}"
    by (rule registered_names)
next
  assume "map_of tool_dict (lower (tc_name c)) = Some t \<and> run t c = Inr out"
  then show "run_tool_calls run (c # cs) ms = run_tool_calls run cs (ms @ [ToolMessage out (tc_id c)])"
    by (simp add: run_tool_calls_registered)
next
  assume "map_of tool_dict (lower (tc_name c)) = None"
  then show "run_tool_calls run (c # cs) ms = run_tool_calls run cs ms"
    by (rule run_tool_calls_skipped)
qed (simp_all add: tool_dict_def)

lemma call_1_name: "lower (tc_name call_1) = ''hospital_search''"
  by (simp add: call_1_def lower_def lower_char_def)

theorem registry_dispatch_witness:
  "map_of tool_dict (lower (tc_name call_1)) = Some hospital_search
   \<and> echo hospital_search call_1 = Inr ''result of call-1''
   \<and> run_tool_calls echo [call_1] [] = Done [ToolMessage ''result of call-1'' ''call-1'']
   \<and> map_of tool_dict (lower (tc_name (call_1\<lparr>tc_name := ''made_up''\<rparr>))) = None
   \<and> run_tool_calls echo [call_1\<lparr>tc_name := ''made_up''\<rparr>, call_1] []
       = Done [ToolMessage ''result of call-1'' ''call-1'']"
proof -
  let ?bad = "call_1\<lparr>tc_name := ''made_up''\<rparr>"
  have r: "map_of tool_dict (lower (tc_name call_1)) = Some hospital_search"
    by (simp add: call_1_name tool_dict_def)
  have e: "echo hospital_search call_1 = Inr ''result of call-1''"
    by (simp add: echo_def call_1_def)
  have i: "tc_id call_1 = ''call-1''" by (simp add: call_1_def)
  have n: "map_of tool_dict (lower (tc_name ?bad)) = None"
    by (simp add: tool_dict_def lower_def lower_char_def)
  note hit = registry_dispatch[where c = call_1 and t = hospital_search and run = echo
      and out = "''result of call-1''", THEN conjunct2, THEN conjunct1, THEN mp, OF conjI[OF r e]]
  note miss = registry_dispatch[where c = ?bad and run = echo,
      THEN conjunct2, THEN conjunct2, THEN conjunct1, THEN mp, OF n]
  have one: "run_tool_calls echo [call_1] [] = Done [ToolMessage ''result of call-1'' ''call-1'']"
    by (simp only: hit i) simp
  have two: "run_tool_calls echo [?bad, call_1] [] = Done [ToolMessage ''result of call-1'' ''call-1'']"
    by (simp only: miss one)
  from r e one n two show ?thesis by blast
qed

text \<open>
  Claim C7 as stated fails for two names of the capability surface: a request for
  doctor_search or get_hospital_feedbacks is skipped although the runtime would answer.
\<close>

theorem registry_dispatch_counterexample:
  "map_of tool_dict (lower ''doctor_search'') = None
   \<and> map_of tool_dict (lower ''get_hospital_feedbacks'') = None
   \<and> run_tool_calls echo [call_1\<lparr>tc_name := ''doctor_search''\<rparr>] [] = Done []
   \<and> run_tool_calls echo [call_1\<lparr>tc_name := ''get_hospital_feedbacks''\<rparr>] [] = Done []"
  by (simp add: echo_def call_1_def tool_dict_def lower_def lower_char_def)

end
